theory Spec2Isabelle
  imports Main "HOL-Library.Word"
begin

unbundle bit_operations_syntax

text \<open>
  A model of pg-large-object: \<open>LargeObjectManager\<close>, \<open>LargeObject\<close>,
  \<open>ReadStream\<close>, \<open>WriteStream\<close> and \<open>promiseFromCallback\<close>, in the version
  that calls \<open>this._query\<close>. The library is written in callbacks: an operation hands
  a statement and a function to the query adapter and returns, and the function runs
  when the adapter answers. The model keeps that shape. A world holds the statements the
  adapter has not answered yet, each with its function, and a trace of what the library
  did; an operation is a function from worlds to a completion and a world; the answer of
  the adapter is a step of the environment that runs the function of the oldest
  statement. The constructor of the manager, which picks the adapter, and the adapter
  for pg-promise are outside the model: \<open>this._query\<close> is taken to queue the statement
  and return, as \<open>client.query\<close> of pg does.
\<close>

section \<open>JavaScript values\<close>

text \<open>
  The values that flow through the library as data: arguments such as \<open>oid\<close>,
  \<open>mode\<close> and \<open>bufferSize\<close>, the errors and results handed over by the query
  adapter, and what the library passes on to its callers. Numbers are the integers and
  \<open>NaN\<close>. \<open>JResult rows\<close> is a driver result object \<open>{rows: [...]}\<close>, each row
  a list of columns. \<open>JLargeObject oid fd\<close> is \<open>new LargeObject(query, oid, fd)\<close>,
  \<open>JStream i\<close> and \<open>JPromise i\<close> are references to the i-th stream and promise
  of the world. Functions are not data values: they have a type of their own below.
\<close>

datatype jsval =
    JUndefined
  | JNull
  | JBool bool
  | JNum int
  | JNaN
  | JStr string
  | JBuffer "8 word list"
  | JError string
  | JTypeError string
  | JArray "jsval list"
  | JResult "(string \<times> jsval) list list"
  | JLargeObject jsval jsval
  | JStream nat
  | JPromise nat

text \<open>\<open>!v\<close>: the falsy values are undefined, null, false, 0, NaN and the empty string.\<close>

fun falsy :: "jsval \<Rightarrow> bool" where
  "falsy JUndefined = True"
| "falsy JNull = True"
| "falsy (JBool b) = (\<not> b)"
| "falsy (JNum n) = (n = 0)"
| "falsy JNaN = True"
| "falsy (JStr s) = (s = [])"
| "falsy (JBuffer b) = False"
| "falsy (JError m) = False"
| "falsy (JTypeError m) = False"
| "falsy (JArray xs) = False"
| "falsy (JResult rows) = False"
| "falsy (JLargeObject oid fd) = False"
| "falsy (JStream i) = False"
| "falsy (JPromise i) = False"

text \<open>\<open>a || b\<close> on values.\<close>

definition js_or :: "jsval \<Rightarrow> jsval \<Rightarrow> jsval" where
  "js_or a b = (if falsy a then b else a)"


text \<open>A statement either completes normally with a value or throws one.\<close>

datatype 'a completion = Normal 'a | Throw jsval

text \<open>
  \<open>result.rows[0].k\<close>: the column \<open>k\<close> of the first row. Reading \<open>rows\<close> of
  undefined or null, and reading a column of the undefined \<open>rows\<close> or of the undefined
  first row, raise a TypeError; a column the row does not have is undefined.
\<close>

definition column :: "(string \<times> jsval) list \<Rightarrow> string \<Rightarrow> jsval" where
  "column r k = (case map_of r k of None \<Rightarrow> JUndefined | Some v \<Rightarrow> v)"

fun first_row_field :: "jsval \<Rightarrow> string \<Rightarrow> jsval completion" where
  "first_row_field (JResult (r # rs)) k = Normal (column r k)"
| "first_row_field v k = Throw (JTypeError ''Cannot read properties of undefined'')"

text \<open>
  \<open>data.length < length\<close> for a number \<open>length\<close>. Buffers, strings and arrays have a
  length; undefined and null have no properties (TypeError); every other value of this
  model has no \<open>length\<close> property, and \<open>undefined < length\<close> is false.
\<close>

fun length_less :: "jsval \<Rightarrow> int \<Rightarrow> bool completion" where
  "length_less JUndefined n = Throw (JTypeError ''Cannot read properties of undefined'')"
| "length_less JNull n = Throw (JTypeError ''Cannot read properties of null'')"
| "length_less (JBuffer b) n = Normal (int (length b) < n)"
| "length_less (JStr s) n = Normal (int (length s) < n)"
| "length_less (JArray xs) n = Normal (int (length xs) < n)"
| "length_less v n = Normal False"

section \<open>Functions as data\<close>

text \<open>
  Every function literal of the library is a constructor that carries the variables the
  literal captures; \<open>call\<close> below runs its body. An optional function argument is a
  \<open>fn option\<close>, \<open>None\<close> for undefined. \<open>UserFn n\<close> is a function of the caller
  (or of the host stream framework).
\<close>

text \<open>
  \<^item> \<open>Promise_callback p twoArgs\<close>: \<open>callback(error, arg1, arg2)\<close> of
    \<open>promiseFromCallback\<close>, with the resolve and reject of promise \<open>p\<close>.
  \<^item> \<open>Open_result oid callback\<close>, \<open>Create_result callback\<close>: the functions
    \<open>open\<close> and \<open>create\<close> of LargeObjectManager hand to the adapter.
  \<^item> \<open>Unlink_result\<close>, \<open>Close_result\<close>, \<open>Write_result\<close>, \<open>Seek_result\<close>,
    \<open>Truncate_result\<close>: the wrappers that exist only when a callback was given
    (\<open>callback ? function(err, result) {...} : undefined\<close>).
  \<^item> \<open>Read_result\<close>, \<open>Tell_result\<close>, \<open>Size_result\<close>: the functions \<open>read\<close>,
    \<open>tell\<close> and \<open>size\<close> of LargeObject hand to the adapter.
  \<^item> \<open>Readable_opened bufferSize callback\<close> and
    \<open>Readable_sized obj bufferSize callback\<close>: the two nested functions of
    \<open>openAndReadableStream\<close>, after \<open>open\<close> and after \<open>size\<close>.
  \<^item> \<open>Writable_created bufferSize callback\<close> and
    \<open>Writable_opened oid bufferSize callback\<close>: the two nested functions of
    \<open>createAndWritableStream\<close>, after \<open>create\<close> and after \<open>open\<close>.
  \<^item> \<open>Close_warning\<close>: \<open>function(err) { if (err) console.error(...) }\<close>.
  \<^item> \<open>Stream_read this length\<close>: the function \<open>_read\<close> of ReadStream hands to
    \<open>read\<close>, bound to the stream.
\<close>

datatype fn =
    UserFn nat
  | Promise_callback nat bool
  | Open_result jsval "fn option"
  | Create_result "fn option"
  | Unlink_result fn
  | Close_result fn
  | Read_result "fn option"
  | Write_result fn
  | Seek_result fn
  | Tell_result "fn option"
  | Size_result "fn option"
  | Truncate_result fn
  | Readable_opened jsval "fn option"
  | Readable_sized jsval jsval "fn option"
  | Close_warning
  | Writable_created jsval "fn option"
  | Writable_opened jsval jsval "fn option"
  | Stream_read nat int

text \<open>An argument that may be a value or a function (\<open>typeof bufferSize === 'function'\<close>).\<close>

datatype arg = Val jsval | Fun fn

text \<open>The listener both auto-closing operations register: \<open>function() { obj.close(...) }\<close>.\<close>

datatype listener = Auto_close jsval

section \<open>The world\<close>

record query =
  q_name :: string
  q_text :: string
  q_values :: "jsval list"

datatype event =
    EQuery query
  | ECall nat "jsval list"
  | EPush nat jsval
  | EEmit nat string "jsval list"
  | EConsoleError "jsval list"

datatype stream_kind = Readable | Writable

record stream =
  kind :: stream_kind
  highWaterMark :: jsval
  objectMode :: bool
  largeObject :: jsval

datatype promise = Pending | Fulfilled jsval | Rejected jsval

text \<open>
  \<open>pending\<close>: the calls made to the query adapter that it has not answered yet, oldest
  first, each with the function it was given (or undefined). \<open>trace\<close>: everything the
  library did that its environment can see, in order. \<open>listeners\<close>: the listeners the
  library registered with \<open>stream.on\<close>.
\<close>

record world =
  pending :: "(query \<times> fn option) list"
  trace :: "event list"
  streams :: "stream list"
  listeners :: "(nat \<times> string \<times> listener) list"
  promises :: "promise list"

type_synonym 'a io = "world \<Rightarrow> 'a completion \<times> world"

definition log_event :: "event \<Rightarrow> world \<Rightarrow> world" where
  "log_event e w = w\<lparr>trace := trace w @ [e]\<rparr>"

text \<open>\<open>this._query(config, callback)\<close>: the adapter queues the statement and returns.\<close>

definition query_call :: "query \<Rightarrow> fn option \<Rightarrow> jsval io" where
  "query_call q cb w =
     (Normal JUndefined, log_event (EQuery q) (w\<lparr>pending := pending w @ [(q, cb)]\<rparr>))"

text \<open>The statements handed to the query adapter so far, in order.\<close>

definition queries :: "world \<Rightarrow> query list" where
  "queries w = concat (map (\<lambda>e. case e of EQuery q \<Rightarrow> [q] | _ \<Rightarrow> []) (trace w))"


definition nth_arg :: "jsval list \<Rightarrow> nat \<Rightarrow> jsval" where
  "nth_arg args i = (if i < length args then args ! i else JUndefined)"

section \<open>LargeObjectManager: constants\<close>

definition WRITE :: "32 word" where
  "WRITE = 0x00020000"

definition READ :: "32 word" where
  "READ = 0x00040000"

definition READWRITE :: "32 word" where
  "READWRITE = 0x00020000 OR 0x00040000"

text \<open>A 32-bit mode constant as the number handed to the driver.\<close>

definition mode_value :: "32 word \<Rightarrow> jsval" where
  "mode_value m = JNum (sint m)"

section \<open>LargeObject\<close>

definition SEEK_SET :: int where "SEEK_SET = 0"
definition SEEK_CUR :: int where "SEEK_CUR = 1"
definition SEEK_END :: int where "SEEK_END = 2"

text \<open>\<open>this._fd\<close> of a LargeObject.\<close>

fun fd_of :: "jsval \<Rightarrow> jsval" where
  "fd_of (JLargeObject oid fd) = fd"
| "fd_of v = JUndefined"

fun isLargeObject :: "jsval \<Rightarrow> bool" where
  "isLargeObject (JLargeObject oid fd) = True"
| "isLargeObject v = False"

text \<open>
  \<open>obj.m(...)\<close> for a method \<open>m\<close> of LargeObject: a value that is not a LargeObject
  has no such method, and calling it raises a TypeError.
\<close>

definition invoke :: "jsval \<Rightarrow> (jsval \<Rightarrow> jsval io) \<Rightarrow> jsval io" where
  "invoke obj m w =
     (if isLargeObject obj then m obj w else (Throw (JTypeError ''is not a function''), w))"

definition LargeObject_close :: "jsval \<Rightarrow> fn option \<Rightarrow> jsval io" where
  "LargeObject_close this callback w =
     query_call
       \<lparr>q_name = ''npg_lo_close'', q_text = ''SELECT lo_close($1) as ok'',
        q_values = [fd_of this]\<rparr>
       (map_option Close_result callback) w"

definition LargeObject_read :: "jsval \<Rightarrow> int \<Rightarrow> fn option \<Rightarrow> jsval io" where
  "LargeObject_read this len callback w =
     query_call
       \<lparr>q_name = ''npg_loread'', q_text = ''SELECT loread($1, $2) as data'',
        q_values = [fd_of this, JNum len]\<rparr>
       (Some (Read_result callback)) w"




definition size_text :: string where
  "size_text =
     ''SELECT lo_lseek64($1, location, 0), seek.size FROM '' @
     ''(SELECT lo_lseek64($1, 0, 2) AS SIZE, tell.location FROM '' @
     ''(SELECT lo_tell64($1) AS location) tell) '' @
     ''seek;''"

definition LargeObject_size :: "jsval \<Rightarrow> fn option \<Rightarrow> jsval io" where
  "LargeObject_size this callback w =
     query_call \<lparr>q_name = ''npg_size'', q_text = size_text, q_values = [fd_of this]\<rparr>
       (Some (Size_result callback)) w"


section \<open>ReadStream and WriteStream\<close>

text \<open>
  The constructors hand their options to the host's \<open>stream.Readable\<close> and
  \<open>stream.Writable\<close>; the readable one also passes \<open>encoding: null\<close>, the writable
  one \<open>decodeStrings: true\<close>. What the host makes of the options is the host's.
\<close>

definition ReadStream :: "jsval \<Rightarrow> jsval \<Rightarrow> stream" where
  "ReadStream largeObject' bufferSize =
     \<lparr>kind = Readable, highWaterMark = js_or bufferSize (JNum 16384), objectMode = False,
      largeObject = largeObject'\<rparr>"

definition WriteStream :: "jsval \<Rightarrow> jsval \<Rightarrow> stream" where
  "WriteStream largeObject' bufferSize =
     \<lparr>kind = Writable, highWaterMark = js_or bufferSize (JNum 16384), objectMode = False,
      largeObject = largeObject'\<rparr>"

text \<open>\<open>new\<close>: the stream becomes an object of the world, referred to by its index.\<close>

definition new_stream :: "stream \<Rightarrow> jsval io" where
  "new_stream s w = (Normal (JStream (length (streams w))), w\<lparr>streams := streams w @ [s]\<rparr>)"

definition getReadableStream :: "jsval \<Rightarrow> jsval \<Rightarrow> jsval io" where
  "getReadableStream this bufferSize w = new_stream (ReadStream this bufferSize) w"

definition getWritableStream :: "jsval \<Rightarrow> jsval \<Rightarrow> jsval io" where
  "getWritableStream this bufferSize w = new_stream (WriteStream this bufferSize) w"

text \<open>\<open>this._largeObject\<close> of the stream \<open>sid\<close>.\<close>

definition largeObject_of :: "nat \<Rightarrow> world \<Rightarrow> jsval" where
  "largeObject_of sid w =
     (if sid < length (streams w) then largeObject (streams w ! sid) else JUndefined)"

definition ReadStream_read :: "nat \<Rightarrow> int \<Rightarrow> jsval io" where
  "ReadStream_read this len w =
     (if len \<le> 0 then (Throw (JStr ''Illegal Argument''), w)
      else invoke (largeObject_of this w)
             (\<lambda>lo. LargeObject_read lo len (Some (Stream_read this len))) w)"


text \<open>\<open>this.push(chunk)\<close>: the chunk (or null, the end of the data) goes to the host.\<close>

definition push :: "nat \<Rightarrow> jsval \<Rightarrow> world \<Rightarrow> world" where
  "push sid chunk w = log_event (EPush sid chunk) w"

text \<open>\<open>stream.on(name, listener)\<close>.\<close>

fun stream_on :: "jsval \<Rightarrow> string \<Rightarrow> listener \<Rightarrow> jsval io" where
  "stream_on (JStream sid) name l w =
     (Normal (JStream sid), w\<lparr>listeners := listeners w @ [(sid, name, l)]\<rparr>)"
| "stream_on v name l w = (Throw (JTypeError ''is not a function''), w)"

fun run_listener :: "listener \<Rightarrow> jsval io" where
  "run_listener (Auto_close obj) w =
     invoke obj (\<lambda>lo. LargeObject_close lo (Some Close_warning)) w"

fun run_listeners :: "listener list \<Rightarrow> jsval io" where
  "run_listeners [] w = (Normal JUndefined, w)"
| "run_listeners (l # ls) w =
     (case run_listener l w of
        (Throw e, w') \<Rightarrow> (Throw e, w')
      | (Normal v, w') \<Rightarrow> run_listeners ls w')"

text \<open>
  \<open>stream.emit(name, args)\<close>: the event is seen by the environment (the listeners of
  the caller and of the host are not part of the model), and the listeners the library
  registered for this stream and this name run in the order of their registration.
\<close>

definition emit :: "nat \<Rightarrow> string \<Rightarrow> jsval list \<Rightarrow> jsval io" where
  "emit sid name args w =
     run_listeners
       (map (\<lambda>(i, n, l). l) (filter (\<lambda>(i, n, l). i = sid \<and> n = name) (listeners w)))
       (log_event (EEmit sid name args) w)"

section \<open>LargeObjectManager\<close>

definition LargeObjectManager_open :: "jsval \<Rightarrow> jsval \<Rightarrow> fn option \<Rightarrow> jsval io" where
  "LargeObjectManager_open oid mode callback w =
     (if falsy oid then (Throw (JError ''Illegal Argument''), w)
      else query_call
             \<lparr>q_name = ''npg_lo_open'', q_text = ''SELECT lo_open($1, $2) AS fd'',
              q_values = [oid, mode]\<rparr>
             (Some (Open_result oid callback)) w)"

definition LargeObjectManager_create :: "fn option \<Rightarrow> jsval io" where
  "LargeObjectManager_create callback w =
     query_call
       \<lparr>q_name = ''npg_lo_creat'', q_text = ''SELECT lo_creat($1) AS oid'',
        q_values = [mode_value READWRITE]\<rparr>
       (Some (Create_result callback)) w"

definition LargeObjectManager_unlink :: "jsval \<Rightarrow> fn option \<Rightarrow> jsval io" where
  "LargeObjectManager_unlink oid callback w =
     (if falsy oid then (Throw (JError ''Illegal Argument''), w)
      else query_call
             \<lparr>q_name = ''npg_lo_unlink'', q_text = ''SELECT lo_unlink($1) as ok'',
              q_values = [oid]\<rparr>
             (map_option Unlink_result callback) w)"

text \<open>\<open>promise\<close> settles once: resolve and reject of a settled promise do nothing.\<close>

definition settle :: "nat \<Rightarrow> promise \<Rightarrow> world \<Rightarrow> world" where
  "settle p s w =
     (if p < length (promises w) \<and> promises w ! p = Pending
      then w\<lparr>promises := (promises w)[p := s]\<rparr> else w)"

section \<open>Running a function of the library\<close>

text \<open>
  \<open>call f args\<close> runs the body of the function literal \<open>f\<close>; \<open>call_opt\<close> calls a
  variable that may hold undefined, which raises a TypeError. A function of the caller
  is recorded with its arguments and taken to return.
\<close>

fun call :: "fn \<Rightarrow> jsval list \<Rightarrow> jsval io"
  and call_opt :: "fn option \<Rightarrow> jsval list \<Rightarrow> jsval io" where
  "call_opt None args w = (Throw (JTypeError ''callback is not a function''), w)"
| "call_opt (Some f) args w = call f args w"
| "call (UserFn n) args w = (Normal JUndefined, log_event (ECall n args) w)"
| "call (Promise_callback p twoArgs) args w =
     (if \<not> falsy (nth_arg args 0) then (Normal JUndefined, settle p (Rejected (nth_arg args 0)) w)
      else if twoArgs
        then (Normal JUndefined, settle p (Fulfilled (JArray [nth_arg args 1, nth_arg args 2])) w)
      else (Normal JUndefined, settle p (Fulfilled (nth_arg args 1)) w))"
| "call (Open_result oid callback) args w =
     (if \<not> falsy (nth_arg args 0) then call_opt callback [nth_arg args 0] w
      else case first_row_field (nth_arg args 1) ''fd'' of
             Throw e \<Rightarrow> (Throw e, w)
           | Normal fd \<Rightarrow> call_opt callback [JNull, JLargeObject oid fd] w)"
| "call (Create_result callback) args w =
     (if \<not> falsy (nth_arg args 0) then call_opt callback [nth_arg args 0] w
      else case first_row_field (nth_arg args 1) ''oid'' of
             Throw e \<Rightarrow> (Throw e, w)
           | Normal oid \<Rightarrow> call_opt callback [JNull, oid] w)"
| "call (Unlink_result callback) args w = call callback [nth_arg args 0] w"
| "call (Close_result callback) args w = call callback [nth_arg args 0] w"
| "call (Read_result callback) args w =
     (if \<not> falsy (nth_arg args 0) then call_opt callback [nth_arg args 0] w
      else case first_row_field (nth_arg args 1) ''data'' of
             Throw e \<Rightarrow> (Throw e, w)
           | Normal data \<Rightarrow> call_opt callback [JNull, data] w)"
| "call (Write_result callback) args w = call callback [nth_arg args 0] w"
| "call (Seek_result callback) args w =
     (if \<not> falsy (nth_arg args 0) then call callback [nth_arg args 0] w
      else case first_row_field (nth_arg args 1) ''location'' of
             Throw e \<Rightarrow> (Throw e, w)
           | Normal location \<Rightarrow> call callback [JNull, location] w)"
| "call (Tell_result callback) args w =
     (if \<not> falsy (nth_arg args 0) then call_opt callback [nth_arg args 0] w
      else case first_row_field (nth_arg args 1) ''location'' of
             Throw e \<Rightarrow> (Throw e, w)
           | Normal location \<Rightarrow> call_opt callback [JNull, location] w)"
| "call (Size_result callback) args w =
     (if \<not> falsy (nth_arg args 0) then call_opt callback [nth_arg args 0] w
      else case first_row_field (nth_arg args 1) ''size'' of
             Throw e \<Rightarrow> (Throw e, w)
           | Normal size' \<Rightarrow> call_opt callback [JNull, size'] w)"
| "call (Truncate_result callback) args w = call callback [nth_arg args 0] w"
| "call (Readable_opened bufferSize callback) args w =
     (if \<not> falsy (nth_arg args 0) then call_opt callback [nth_arg args 0] w
      else invoke (nth_arg args 1)
             (\<lambda>obj. LargeObject_size obj (Some (Readable_sized obj bufferSize callback))) w)"
| "call (Readable_sized obj bufferSize callback) args w =
     (if \<not> falsy (nth_arg args 0) then call_opt callback [nth_arg args 0] w
      else case invoke obj (\<lambda>lo. getReadableStream lo bufferSize) w of
             (Throw e, w1) \<Rightarrow> (Throw e, w1)
           | (Normal stream', w1) \<Rightarrow>
               (case stream_on stream' ''end'' (Auto_close obj) w1 of
                  (Throw e, w2) \<Rightarrow> (Throw e, w2)
                | (Normal v, w2) \<Rightarrow> call_opt callback [JNull, nth_arg args 1, stream'] w2))"
| "call Close_warning args w =
     (if \<not> falsy (nth_arg args 0)
      then (Normal JUndefined,
            log_event
              (EConsoleError [JStr ''Warning: closing a large object failed:'', nth_arg args 0]) w)
      else (Normal JUndefined, w))"
| "call (Writable_created bufferSize callback) args w =
     (if \<not> falsy (nth_arg args 0) then call_opt callback [nth_arg args 0] w
      else LargeObjectManager_open (nth_arg args 1) (mode_value WRITE)
             (Some (Writable_opened (nth_arg args 1) bufferSize callback)) w)"
| "call (Writable_opened oid bufferSize callback) args w =
     (if \<not> falsy (nth_arg args 0) then call_opt callback [nth_arg args 0] w
      else case invoke (nth_arg args 1) (\<lambda>lo. getWritableStream lo bufferSize) w of
             (Throw e, w1) \<Rightarrow> (Throw e, w1)
           | (Normal stream', w1) \<Rightarrow>
               (case stream_on stream' ''finish'' (Auto_close (nth_arg args 1)) w1 of
                  (Throw e, w2) \<Rightarrow> (Throw e, w2)
                | (Normal v, w2) \<Rightarrow> call_opt callback [JNull, oid, stream'] w2))"
| "call (Stream_read this len) args w =
     (if \<not> falsy (nth_arg args 0) then
        (case emit this ''error'' [nth_arg args 0] w of
           (Throw e, w1) \<Rightarrow> (Throw e, w1)
         | (Normal v, w1) \<Rightarrow> (Normal JUndefined, w1))
      else
        (case length_less (nth_arg args 1) len of
           Throw e \<Rightarrow> (Throw e, push this (nth_arg args 1) w)
         | Normal short \<Rightarrow>
             (Normal JUndefined,
              if short then push this JNull (push this (nth_arg args 1) w)
              else push this (nth_arg args 1) w)))"

section \<open>LargeObjectManager: the auto-closing operations\<close>

definition openAndReadableStream :: "jsval \<Rightarrow> arg \<Rightarrow> fn option \<Rightarrow> jsval io" where
  "openAndReadableStream oid bufferSize callback w =
     (case bufferSize of
        Fun f \<Rightarrow>
          LargeObjectManager_open oid (mode_value READ)
            (Some (Readable_opened JUndefined (Some f))) w
      | Val v \<Rightarrow>
          LargeObjectManager_open oid (mode_value READ)
            (Some (Readable_opened v callback)) w)"

definition createAndWritableStream :: "arg \<Rightarrow> fn option \<Rightarrow> jsval io" where
  "createAndWritableStream bufferSize callback w =
     (case bufferSize of
        Fun f \<Rightarrow> LargeObjectManager_create (Some (Writable_created JUndefined (Some f))) w
      | Val v \<Rightarrow> LargeObjectManager_create (Some (Writable_created v callback)) w)"

section \<open>promiseFromCallback\<close>

text \<open>
  The function literals the promise-returning methods of LargeObjectManager hand to
  \<open>promiseFromCallback\<close>, each with the arguments it captures; \<open>run_executor\<close> is
  \<open>fn.call(self, callback)\<close>.
\<close>

datatype executor =
    Exec_open jsval jsval
  | Exec_create
  | Exec_unlink jsval
  | Exec_openAndReadableStream jsval arg
  | Exec_createAndWritableStream arg

fun run_executor :: "executor \<Rightarrow> fn \<Rightarrow> jsval io" where
  "run_executor (Exec_open oid mode) callback w =
     LargeObjectManager_open oid mode (Some callback) w"
| "run_executor Exec_create callback w = LargeObjectManager_create (Some callback) w"
| "run_executor (Exec_unlink oid) callback w = LargeObjectManager_unlink oid (Some callback) w"
| "run_executor (Exec_openAndReadableStream oid bufferSize) callback w =
     openAndReadableStream oid bufferSize (Some callback) w"
| "run_executor (Exec_createAndWritableStream bufferSize) callback w =
     createAndWritableStream bufferSize (Some callback) w"

text \<open>
  \<open>new Promise(executor)\<close> runs the executor at once with the promise's resolve and
  reject; when the executor throws, the promise is rejected with what it threw, and the
  constructor returns the promise all the same. \<open>twoArgs\<close> is \<open>options && options.twoArgs\<close>.
\<close>

definition promiseFromCallback :: "executor \<Rightarrow> bool \<Rightarrow> jsval io" where
  "promiseFromCallback f twoArgs w =
     (let p = length (promises w) in
      case run_executor f (Promise_callback p twoArgs) (w\<lparr>promises := promises w @ [Pending]\<rparr>) of
        (Throw e, w') \<Rightarrow> (Normal (JPromise p), settle p (Rejected e) w')
      | (Normal v, w') \<Rightarrow> (Normal (JPromise p), w'))"

definition openAsync :: "jsval \<Rightarrow> jsval \<Rightarrow> jsval io" where
  "openAsync oid mode w = promiseFromCallback (Exec_open oid mode) False w"

definition createAsync :: "jsval io" where
  "createAsync w = promiseFromCallback Exec_create False w"

definition unlinkAsync :: "jsval \<Rightarrow> jsval io" where
  "unlinkAsync oid w = promiseFromCallback (Exec_unlink oid) False w"

definition openAndReadableStreamAsync :: "jsval \<Rightarrow> arg \<Rightarrow> jsval io" where
  "openAndReadableStreamAsync oid bufferSize w =
     promiseFromCallback (Exec_openAndReadableStream oid bufferSize) True w"

definition createAndWritableStreamAsync :: "arg \<Rightarrow> jsval io" where
  "createAndWritableStreamAsync bufferSize w =
     promiseFromCallback (Exec_createAndWritableStream bufferSize) True w"

section \<open>The environment\<close>

text \<open>
  The query adapter answers the oldest statement it holds: it calls the function it was
  given with \<open>(err, result)\<close>. A statement handed over without a function is answered
  to nobody.
\<close>

definition deliver :: "jsval \<Rightarrow> jsval \<Rightarrow> jsval io" where
  "deliver err result w =
     (case pending w of
        [] \<Rightarrow> (Normal JUndefined, w)
      | (q, cb) # rest \<Rightarrow>
          (case cb of
             None \<Rightarrow> (Normal JUndefined, w\<lparr>pending := rest\<rparr>)
           | Some f \<Rightarrow> call f [err, result] (w\<lparr>pending := rest\<rparr>)))"




section \<open>The server's large-object functions\<close>

text \<open>
  Modelled from the spec: the server functions \<open>lo_tell64\<close> and \<open>lo_lseek64\<close> that
  the SQL text of \<open>tell\<close>, \<open>seek\<close> and \<open>size\<close> calls. They are PostgreSQL's and
  not code of the library. A descriptor has the bytes of its object and a position.
  \<open>lo_tell64\<close> returns the current position without side effects. \<open>lo_lseek64\<close>
  moves the position to an offset from the start (origin 0), from the current position
  (1) or from the end (2) and returns the resulting absolute position; as PostgreSQL
  does, it refuses another origin and a target below 0 or above the largest object
  size. A failed statement aborts the transaction, which closes its descriptors.
\<close>

record descriptor =
  d_data :: "8 word list"
  d_pos :: int

type_synonym server = "int \<rightharpoonup> descriptor"

definition MAX_LARGE_OBJECT_SIZE :: int where
  "MAX_LARGE_OBJECT_SIZE = 2147483647 * 2048"

fun lo_tell64 :: "server \<Rightarrow> jsval \<Rightarrow> int completion" where
  "lo_tell64 srv (JNum fd) =
     (case srv fd of
        None \<Rightarrow> Throw (JError ''invalid large-object descriptor'')
      | Some d \<Rightarrow> Normal (d_pos d))"
| "lo_tell64 srv v = Throw (JError ''invalid large-object descriptor'')"

fun lo_lseek64 :: "server \<Rightarrow> jsval \<Rightarrow> int \<Rightarrow> int \<Rightarrow> int completion \<times> server" where
  "lo_lseek64 srv (JNum fd) offset whence =
     (case srv fd of
        None \<Rightarrow> (Throw (JError ''invalid large-object descriptor''), srv)
      | Some d \<Rightarrow>
          (if whence \<noteq> 0 \<and> whence \<noteq> 1 \<and> whence \<noteq> 2
           then (Throw (JError ''invalid whence setting''), srv)
           else
             (let target =
                (if whence = 0 then offset
                 else if whence = 1 then d_pos d + offset
                 else int (length (d_data d)) + offset)
              in if target < 0 \<or> MAX_LARGE_OBJECT_SIZE < target
                 then (Throw (JError ''invalid large object seek target''), srv)
                 else (Normal target, srv(fd \<mapsto> d\<lparr>d_pos := target\<rparr>)))))"
| "lo_lseek64 srv v offset whence =
     (Throw (JError ''invalid large-object descriptor''), srv)"

section \<open>The server's side: the SQL of the statements\<close>

text \<open>
  What a statement of the library does is written in its SQL text, so the server's side
  reads the text. The part of SQL the texts of \<open>tell\<close> and \<open>size\<close> use is read as
  PostgreSQL reads it: key words and names in any case, names folded to lower case; a
  statement \<open>SELECT item, ... [FROM (select) alias] [;]\<close>; an item an expression with
  an optional \<open>AS name\<close>; an expression a number, a parameter \<open>$n\<close>, a column, a
  column of an alias (\<open>alias.column\<close>) or a function call. A text outside this part is
  not read (\<open>None\<close>).
\<close>

datatype token =
    TIdent string | TNum int | TParam nat
  | TLParen | TRParen | TComma | TDot | TSemi | TBad char

definition lower :: "char \<Rightarrow> char" where
  "lower c =
     (case map_of (zip ''ABCDEFGHIJKLMNOPQRSTUVWXYZ'' ''abcdefghijklmnopqrstuvwxyz'') c of
        None \<Rightarrow> c
      | Some l \<Rightarrow> l)"

definition is_digit :: "char \<Rightarrow> bool" where
  "is_digit c = (c \<in> set ''0123456789'')"

definition is_name_start :: "char \<Rightarrow> bool" where
  "is_name_start c = (c \<in> set ''abcdefghijklmnopqrstuvwxyz_'')"

definition is_word_char :: "char \<Rightarrow> bool" where
  "is_word_char c = (is_name_start c \<or> is_digit c \<or> c = CHR ''$'')"

definition is_space :: "char \<Rightarrow> bool" where
  "is_space c = (c \<in> set [CHR '' '', CHR 0x09, CHR 0x0A, CHR 0x0D])"

definition digit_value :: "char \<Rightarrow> nat" where
  "digit_value c =
     (case map_of (zip ''0123456789'' [0, 1, 2, 3, 4, 5, 6, 7, 8, 9]) c of
        None \<Rightarrow> 0
      | Some n \<Rightarrow> n)"

definition number_of :: "string \<Rightarrow> nat" where
  "number_of s = foldl (\<lambda>n c. 10 * n + digit_value c) 0 s"

text \<open>A word of letters, digits, \<open>_\<close> and \<open>$\<close>: a number, a parameter or a name.\<close>

fun word_token :: "string \<Rightarrow> token" where
  "word_token [] = TBad (CHR '' '')"
| "word_token (c # cs) =
     (if list_all is_digit (c # cs) then TNum (int (number_of (c # cs)))
      else if c = CHR ''$'' \<and> cs \<noteq> [] \<and> list_all is_digit cs then TParam (number_of cs)
      else if is_name_start c then TIdent (c # cs)
      else TBad c)"

definition flush :: "string \<Rightarrow> token list" where
  "flush w = (if w = [] then [] else [word_token w])"

definition punctuation :: "char \<Rightarrow> token" where
  "punctuation c =
     (if c = CHR ''('' then TLParen
      else if c = CHR '')'' then TRParen
      else if c = CHR '','' then TComma
      else if c = CHR ''.'' then TDot
      else if c = CHR '';'' then TSemi
      else TBad c)"

text \<open>The tokens of a text; \<open>w\<close> is the word read so far.\<close>

fun lex :: "string \<Rightarrow> string \<Rightarrow> token list" where
  "lex w [] = flush w"
| "lex w (c # cs) =
     (if is_word_char (lower c) then lex (w @ [lower c]) cs
      else if is_space c then flush w @ lex [] cs
      else flush w @ punctuation c # lex [] cs)"

datatype expr =
    SqlNum int
  | SqlParam nat
  | SqlColumn string
  | SqlQualified string string
  | SqlCall string "expr list"

datatype select =
    Select "(expr \<times> string option) list"
  | Select_from "(expr \<times> string option) list" select string

definition key_word :: "string \<Rightarrow> bool" where
  "key_word s = (s \<in> set [''select'', ''from'', ''as''])"

text \<open>
  The parser, by recursive descent; each function returns what it read and the tokens
  left. The first argument bounds the depth of the descent.
\<close>

fun parse_expr :: "nat \<Rightarrow> token list \<Rightarrow> (expr \<times> token list) option"
  and parse_args :: "nat \<Rightarrow> token list \<Rightarrow> (expr list \<times> token list) option" where
  "parse_expr 0 ts = None"
| "parse_expr (Suc n) ts =
     (case ts of
        TNum k # rest \<Rightarrow> Some (SqlNum k, rest)
      | TParam k # rest \<Rightarrow> Some (SqlParam k, rest)
      | TIdent a # rest \<Rightarrow>
          (if key_word a then None
           else case rest of
                  TLParen # TRParen # rest' \<Rightarrow> Some (SqlCall a [], rest')
                | TLParen # rest' \<Rightarrow>
                    (case parse_args n rest' of
                       None \<Rightarrow> None
                     | Some (args, rest'') \<Rightarrow> Some (SqlCall a args, rest''))
                | TDot # TIdent b # rest' \<Rightarrow>
                    (if key_word b then None else Some (SqlQualified a b, rest'))
                | _ \<Rightarrow> Some (SqlColumn a, rest))
      | _ \<Rightarrow> None)"
| "parse_args 0 ts = None"
| "parse_args (Suc n) ts =
     (case parse_expr n ts of
        None \<Rightarrow> None
      | Some (e, rest) \<Rightarrow>
          (case rest of
             TComma # rest' \<Rightarrow>
               (case parse_args n rest' of
                  None \<Rightarrow> None
                | Some (es, rest'') \<Rightarrow> Some (e # es, rest''))
           | TRParen # rest' \<Rightarrow> Some ([e], rest')
           | _ \<Rightarrow> None))"

fun parse_alias :: "token list \<Rightarrow> string option \<times> token list" where
  "parse_alias (TIdent a # TIdent name # ts) =
     (if a = ''as'' \<and> \<not> key_word name then (Some name, ts)
      else (None, TIdent a # TIdent name # ts))"
| "parse_alias ts = (None, ts)"

fun parse_items :: "nat \<Rightarrow> token list \<Rightarrow> ((expr \<times> string option) list \<times> token list) option" where
  "parse_items 0 ts = None"
| "parse_items (Suc n) ts =
     (case parse_expr n ts of
        None \<Rightarrow> None
      | Some (e, rest) \<Rightarrow>
          (case parse_alias rest of
             (name, TComma # rest') \<Rightarrow>
               (case parse_items n rest' of
                  None \<Rightarrow> None
                | Some (items, rest'') \<Rightarrow> Some ((e, name) # items, rest''))
           | (name, rest') \<Rightarrow> Some ([(e, name)], rest')))"

fun parse_select :: "nat \<Rightarrow> token list \<Rightarrow> (select \<times> token list) option" where
  "parse_select 0 ts = None"
| "parse_select (Suc n) ts =
     (case ts of
        TIdent s # rest \<Rightarrow>
          (if s \<noteq> ''select'' then None
           else case parse_items n rest of
                  None \<Rightarrow> None
                | Some (items, rest1) \<Rightarrow>
                    (case rest1 of
                       TIdent f # TLParen # rest2 \<Rightarrow>
                         (if f \<noteq> ''from'' then None
                          else case parse_select n rest2 of
                                 Some (sub, TRParen # TIdent alias # rest3) \<Rightarrow>
                                   (if key_word alias then None
                                    else Some (Select_from items sub alias, rest3))
                               | _ \<Rightarrow> None)
                     | _ \<Rightarrow> Some (Select items, rest1)))
      | _ \<Rightarrow> None)"

definition parse_statement :: "string \<Rightarrow> select option" where
  "parse_statement text' =
     (let ts = lex [] text' in
      case parse_select (Suc (length ts)) ts of
        None \<Rightarrow> None
      | Some (sel, rest) \<Rightarrow> (if rest = [] \<or> rest = [TSemi] then Some sel else None))"

text \<open>
  Running a select. The select of the \<open>FROM\<close> clause runs first and gives one row,
  whose columns the items can name, bare or with the alias; then the items run from
  left to right, and each function call runs once its arguments have. The functions are
  those modelled above; a call of another function is not run (\<open>None\<close>). A column has
  the name of its \<open>AS\<close>, else the name of the function or of the column it is.
\<close>

fun lookup_column :: "(string \<times> string \<times> jsval) list \<Rightarrow> string \<Rightarrow> jsval option" where
  "lookup_column [] c = None"
| "lookup_column ((a, n, v) # r) c = (if n = c then Some v else lookup_column r c)"

fun lookup_qualified ::
  "(string \<times> string \<times> jsval) list \<Rightarrow> string \<Rightarrow> string \<Rightarrow> jsval option" where
  "lookup_qualified [] q c = None"
| "lookup_qualified ((a, n, v) # r) q c =
     (if a = q \<and> n = c then Some v else lookup_qualified r q c)"

definition apply_function ::
  "server \<Rightarrow> string \<Rightarrow> jsval list \<Rightarrow> (jsval completion \<times> server) option" where
  "apply_function srv f args =
     (if f = ''lo_tell64'' then
        (case args of
           [fd] \<Rightarrow>
             Some (case lo_tell64 srv fd of
                     Throw e \<Rightarrow> (Throw e, srv)
                   | Normal p \<Rightarrow> (Normal (JNum p), srv))
         | _ \<Rightarrow> None)
      else if f = ''lo_lseek64'' then
        (case args of
           [fd, JNum offset, JNum whence] \<Rightarrow>
             Some (case lo_lseek64 srv fd offset whence of
                     (Throw e, srv') \<Rightarrow> (Throw e, srv')
                   | (Normal p, srv') \<Rightarrow> (Normal (JNum p), srv'))
         | _ \<Rightarrow> None)
      else None)"

fun eval_expr ::
  "server \<Rightarrow> jsval list \<Rightarrow> (string \<times> string \<times> jsval) list \<Rightarrow> expr \<Rightarrow>
     (jsval completion \<times> server) option"
  and eval_args ::
  "server \<Rightarrow> jsval list \<Rightarrow> (string \<times> string \<times> jsval) list \<Rightarrow> expr list \<Rightarrow>
     (jsval list completion \<times> server) option" where
  "eval_expr srv ps r (SqlNum k) = Some (Normal (JNum k), srv)"
| "eval_expr srv ps r (SqlParam i) =
     (if 0 < i \<and> i \<le> length ps then Some (Normal (ps ! (i - 1)), srv)
      else Some (Throw (JError ''there is no parameter''), srv))"
| "eval_expr srv ps r (SqlColumn c) =
     (case lookup_column r c of
        None \<Rightarrow> Some (Throw (JError ''column does not exist''), srv)
      | Some v \<Rightarrow> Some (Normal v, srv))"
| "eval_expr srv ps r (SqlQualified q c) =
     (case lookup_qualified r q c of
        None \<Rightarrow> Some (Throw (JError ''column does not exist''), srv)
      | Some v \<Rightarrow> Some (Normal v, srv))"
| "eval_expr srv ps r (SqlCall f args) =
     (case eval_args srv ps r args of
        None \<Rightarrow> None
      | Some (Throw e, srv') \<Rightarrow> Some (Throw e, srv')
      | Some (Normal vs, srv') \<Rightarrow> apply_function srv' f vs)"
| "eval_args srv ps r [] = Some (Normal [], srv)"
| "eval_args srv ps r (e # es) =
     (case eval_expr srv ps r e of
        None \<Rightarrow> None
      | Some (Throw x, srv') \<Rightarrow> Some (Throw x, srv')
      | Some (Normal v, srv') \<Rightarrow>
          (case eval_args srv' ps r es of
             None \<Rightarrow> None
           | Some (Throw x, srv'') \<Rightarrow> Some (Throw x, srv'')
           | Some (Normal vs, srv'') \<Rightarrow> Some (Normal (v # vs), srv'')))"

fun item_name :: "expr \<times> string option \<Rightarrow> string" where
  "item_name (e, Some name) = name"
| "item_name (SqlCall f args, None) = f"
| "item_name (SqlColumn c, None) = c"
| "item_name (SqlQualified q c, None) = c"
| "item_name (e, None) = ''?column?''"

fun eval_items ::
  "server \<Rightarrow> jsval list \<Rightarrow> (string \<times> string \<times> jsval) list \<Rightarrow> (expr \<times> string option) list \<Rightarrow>
     ((string \<times> jsval) list completion \<times> server) option" where
  "eval_items srv ps r [] = Some (Normal [], srv)"
| "eval_items srv ps r (item # items) =
     (case eval_expr srv ps r (fst item) of
        None \<Rightarrow> None
      | Some (Throw x, srv') \<Rightarrow> Some (Throw x, srv')
      | Some (Normal v, srv') \<Rightarrow>
          (case eval_items srv' ps r items of
             None \<Rightarrow> None
           | Some (Throw x, srv'') \<Rightarrow> Some (Throw x, srv'')
           | Some (Normal cols, srv'') \<Rightarrow> Some (Normal ((item_name item, v) # cols), srv'')))"

fun eval_select ::
  "server \<Rightarrow> jsval list \<Rightarrow> select \<Rightarrow> ((string \<times> jsval) list completion \<times> server) option" where
  "eval_select srv ps (Select items) = eval_items srv ps [] items"
| "eval_select srv ps (Select_from items sub alias) =
     (case eval_select srv ps sub of
        None \<Rightarrow> None
      | Some (Throw x, srv') \<Rightarrow> Some (Throw x, srv')
      | Some (Normal cols, srv') \<Rightarrow>
          eval_items srv' ps (map (\<lambda>(n, v). (alias, n, v)) cols) items)"

text \<open>
  The answer to a statement: the error, or the one row of the select. A failed statement
  aborts the transaction, which closes its descriptors.
\<close>

definition run_statement :: "server \<Rightarrow> query \<Rightarrow> ((jsval \<times> jsval) \<times> server) option" where
  "run_statement srv q =
     (case parse_statement (q_text q) of
        None \<Rightarrow> None
      | Some sel \<Rightarrow>
          (case eval_select srv (q_values q) sel of
             None \<Rightarrow> None
           | Some (Throw e, srv') \<Rightarrow> Some ((e, JUndefined), Map.empty)
           | Some (Normal cols, srv') \<Rightarrow> Some ((JNull, JResult [cols]), srv')))"


section \<open>What the theorems speak about\<close>


text \<open>A world in which nothing has happened yet, and one with a stream of each kind.\<close>

definition init_world :: world where
  "init_world = \<lparr>pending = [], trace = [], streams = [], listeners = [], promises = []\<rparr>"

definition streams_world :: world where
  "streams_world =
     \<lparr>pending = [], trace = [],
      streams = [ReadStream (JLargeObject (JNum 16401) (JNum 0)) JUndefined,
                 WriteStream (JLargeObject (JNum 16402) (JNum 1)) (JNum 4096)],
      listeners = [], promises = []\<rparr>"

text \<open>A server with one descriptor: object of the 8 bytes 0123456789ABCDEF, at position 2.\<close>

definition example_server :: server where
  "example_server = [0 \<mapsto> \<lparr>d_data = [0x01, 0x23, 0x45, 0x67, 0x89, 0xAB, 0xCD, 0xEF], d_pos = 2\<rparr>]"

section \<open>Facts about the trace\<close>

lemma queries_query_call: "queries (snd (query_call q cb w)) = queries w @ [q]"
  by (simp add: query_call_def queries_def log_event_def)




section \<open>Usage errors of open and unlink\<close>

text \<open>
  C3. With a falsy \<open>oid\<close>, \<open>open\<close> and \<open>unlink\<close> throw \<open>Error("Illegal Argument")\<close>
  at the call and leave the world as it was, so no statement has reached the query
  adapter. With any other \<open>oid\<close> they return normally, and exactly one statement has
  been handed to the adapter: the open statement with \<open>[oid, mode]\<close>, the unlink
  statement with \<open>[oid]\<close>.
\<close>

theorem usage_error_before_any_query:
  "(if falsy oid
    then LargeObjectManager_open oid mode callback w = (Throw (JError ''Illegal Argument''), w)
       \<and> LargeObjectManager_unlink oid callback' w = (Throw (JError ''Illegal Argument''), w)
    else fst (LargeObjectManager_open oid mode callback w) = Normal JUndefined
       \<and> queries (snd (LargeObjectManager_open oid mode callback w)) =
           queries w @ [\<lparr>q_name = ''npg_lo_open'', q_text = ''SELECT lo_open($1, $2) AS fd'',
                         q_values = [oid, mode]\<rparr>]
       \<and> fst (LargeObjectManager_unlink oid callback' w) = Normal JUndefined
       \<and> queries (snd (LargeObjectManager_unlink oid callback' w)) =
           queries w @ [\<lparr>q_name = ''npg_lo_unlink'', q_text = ''SELECT lo_unlink($1) as ok'',
                         q_values = [oid]\<rparr>])"
  by (simp add: LargeObjectManager_open_def LargeObjectManager_unlink_def queries_query_call)
     (simp add: query_call_def)

text \<open>The oids 0 and undefined throw; the oid 16401 sends one statement.\<close>

theorem usage_error_before_any_query_witness:
  "LargeObjectManager_open (JNum 0) (mode_value READ) None init_world =
     (Throw (JError ''Illegal Argument''), init_world)
   \<and> LargeObjectManager_unlink JUndefined None init_world =
     (Throw (JError ''Illegal Argument''), init_world)
   \<and> queries (snd (LargeObjectManager_open (JNum 16401) (JNum 262144) None init_world)) =
       [\<lparr>q_name = ''npg_lo_open'', q_text = ''SELECT lo_open($1, $2) AS fd'',
         q_values = [JNum 16401, JNum 262144]\<rparr>]
   \<and> queries (snd (LargeObjectManager_unlink (JNum 16401) None init_world)) =
       [\<lparr>q_name = ''npg_lo_unlink'', q_text = ''SELECT lo_unlink($1) as ok'',
         q_values = [JNum 16401]\<rparr>]"
  using usage_error_before_any_query [of "JNum 0" "mode_value READ" None init_world None]
    usage_error_before_any_query [of JUndefined JNull None init_world None]
    usage_error_before_any_query [of "JNum 16401" "JNum 262144" None init_world None]
  by (simp add: queries_def init_world_def)

section \<open>A pull of no bytes\<close>

text \<open>
  C7. A pull of the readable stream with a requested length of 0 or less throws
  \<open>"Illegal Argument"\<close> at the call; the world is as before, so no read was issued and
  nothing was pushed.
\<close>

theorem zero_length_pull_throws:
  "len \<le> 0 \<Longrightarrow> ReadStream_read this len w = (Throw (JStr ''Illegal Argument''), w)"
  by (simp add: ReadStream_read_def)

theorem zero_length_pull_throws_witness:
  "ReadStream_read 0 0 streams_world = (Throw (JStr ''Illegal Argument''), streams_world)
   \<and> ReadStream_read 0 (- 1) streams_world = (Throw (JStr ''Illegal Argument''), streams_world)"
  using zero_length_pull_throws [of 0 0 streams_world]
    zero_length_pull_throws [of "- 1" 0 streams_world]
  by simp

section \<open>The default buffer size\<close>

text \<open>
  C10. The stream that \<open>getReadableStream\<close> or \<open>getWritableStream\<close> constructs has
  the high-water mark 16384 when \<open>bufferSize\<close> is falsy (undefined, 0, ...), and
  \<open>bufferSize\<close> itself when it is truthy.
\<close>

theorem default_buffer_size:
  "getReadableStream lo bufferSize w =
     (Normal (JStream (length (streams w))),
      w\<lparr>streams := streams w @ [ReadStream lo bufferSize]\<rparr>)
   \<and> getWritableStream lo bufferSize w =
     (Normal (JStream (length (streams w))),
      w\<lparr>streams := streams w @ [WriteStream lo bufferSize]\<rparr>)
   \<and> highWaterMark (ReadStream lo bufferSize) =
       (if falsy bufferSize then JNum 16384 else bufferSize)
   \<and> highWaterMark (WriteStream lo bufferSize) =
       (if falsy bufferSize then JNum 16384 else bufferSize)"
  by (simp add: ReadStream_def WriteStream_def js_or_def getReadableStream_def
      getWritableStream_def new_stream_def)

theorem default_buffer_size_witness:
  "highWaterMark (ReadStream (JLargeObject (JNum 16401) (JNum 0)) (JNum 0)) = JNum 16384
   \<and> highWaterMark (WriteStream (JLargeObject (JNum 16401) (JNum 0)) JUndefined) = JNum 16384
   \<and> highWaterMark (ReadStream (JLargeObject (JNum 16401) (JNum 0)) (JNum 4096)) = JNum 4096
   \<and> highWaterMark (WriteStream (JLargeObject (JNum 16401) (JNum 0)) (JNum 1)) = JNum 1"
  using default_buffer_size [of "JLargeObject (JNum 16401) (JNum 0)" "JNum 0" init_world]
    default_buffer_size [of "JLargeObject (JNum 16401) (JNum 0)" JUndefined init_world]
    default_buffer_size [of "JLargeObject (JNum 16401) (JNum 0)" "JNum 4096" init_world]
    default_buffer_size [of "JLargeObject (JNum 16401) (JNum 0)" "JNum 1" init_world]
  by simp

section \<open>Usage errors of the promise-returning variants\<close>

text \<open>
  C9. With a falsy \<open>oid\<close>, \<open>openAsync\<close> and \<open>unlinkAsync\<close> do not throw: they
  return a new promise, which is rejected with \<open>Error("Illegal Argument")\<close>, and nothing
  else in the world has changed (no statement was sent).
\<close>

theorem async_usage_error_rejects:
  "falsy oid \<Longrightarrow>
     openAsync oid mode w =
       (Normal (JPromise (length (promises w))),
        w\<lparr>promises := promises w @ [Rejected (JError ''Illegal Argument'')]\<rparr>)
   \<and> unlinkAsync oid w =
       (Normal (JPromise (length (promises w))),
        w\<lparr>promises := promises w @ [Rejected (JError ''Illegal Argument'')]\<rparr>)"
  by (simp add: openAsync_def unlinkAsync_def promiseFromCallback_def LargeObjectManager_open_def
      LargeObjectManager_unlink_def settle_def Let_def)

theorem async_usage_error_rejects_witness:
  "falsy (JNum 0)
   \<and> openAsync (JNum 0) (mode_value READ) init_world =
       (Normal (JPromise 0),
        init_world\<lparr>promises := [Rejected (JError ''Illegal Argument'')]\<rparr>)
   \<and> unlinkAsync (JNum 0) init_world =
       (Normal (JPromise 0),
        init_world\<lparr>promises := [Rejected (JError ''Illegal Argument'')]\<rparr>)"
  using async_usage_error_rejects [of "JNum 0" "mode_value READ" init_world]
  by (simp add: init_world_def)

section \<open>create\<close>

text \<open>
  C8. \<open>create\<close> hands the adapter one statement, \<open>lo_creat\<close> with the single value
  READWRITE, which is \<open>0x00020000 | 0x00040000 = WRITE | READ = 393216\<close>, whatever the
  caller does with the object later. When the adapter answers with a row, the callback
  is called with \<open>(null, oid)\<close>, the row's \<open>oid\<close> column, and nothing else happens: no
  further statement, no stream, no LargeObject.
\<close>

theorem create_sends_readwrite:
  "LargeObjectManager_create callback w =
     (Normal JUndefined,
      w\<lparr>pending := pending w @
           [(\<lparr>q_name = ''npg_lo_creat'', q_text = ''SELECT lo_creat($1) AS oid'',
              q_values = [JNum 393216]\<rparr>, Some (Create_result callback))],
        trace := trace w @
           [EQuery \<lparr>q_name = ''npg_lo_creat'', q_text = ''SELECT lo_creat($1) AS oid'',
                    q_values = [JNum 393216]\<rparr>]\<rparr>)
   \<and> mode_value READWRITE = JNum 393216
   \<and> READWRITE = WRITE OR READ
   \<and> (pending w = [] \<longrightarrow>
        deliver JNull (JResult (r # rs)) (snd (LargeObjectManager_create (Some (UserFn k)) w)) =
          (Normal JUndefined,
           w\<lparr>trace := trace w @
             [EQuery \<lparr>q_name = ''npg_lo_creat'', q_text = ''SELECT lo_creat($1) AS oid'',
                      q_values = [JNum 393216]\<rparr>,
              ECall k [JNull, column r ''oid'']]\<rparr>))"
  by (simp add: LargeObjectManager_create_def query_call_def log_event_def mode_value_def
      READWRITE_def WRITE_def READ_def deliver_def nth_arg_def)

theorem create_sends_readwrite_witness:
  "pending init_world = []
   \<and> deliver JNull (JResult [[(''oid'', JNum 16401)]])
       (snd (LargeObjectManager_create (Some (UserFn 7)) init_world)) =
       (Normal JUndefined,
        init_world\<lparr>trace :=
          [EQuery \<lparr>q_name = ''npg_lo_creat'', q_text = ''SELECT lo_creat($1) AS oid'',
                   q_values = [JNum 393216]\<rparr>,
           ECall 7 [JNull, JNum 16401]]\<rparr>)"
proof -
  have p: "pending init_world = []" and t: "trace init_world = []"
    by (simp_all add: init_world_def)
  note answered =
    create_sends_readwrite [of "Some (UserFn 7)" init_world "[(''oid'', JNum 16401)]" "[]" 7,
      THEN conjunct2, THEN conjunct2, THEN conjunct2, THEN mp, OF p]
  from answered show ?thesis
    by (simp add: p t column_def)
qed

section \<open>A pull of the readable stream\<close>



section \<open>Chunks of the writable stream\<close>







section \<open>One statement for each operation\<close>












section \<open>The automatic close\<close>








section \<open>size and the position\<close>







text \<open>
  The restored position comes from the outer select of the text: a statement that only
  seeks to the end gives the same size and leaves the descriptor at the end.
\<close>

lemma seek_to_end_moves_position:
  "run_statement example_server
     \<lparr>q_name = ''npg_size'', q_text = ''SELECT lo_lseek64($1, 0, 2) AS SIZE;'',
      q_values = [JNum 0]\<rparr> =
   Some ((JNull, JResult [[(''size'', JNum 8)]]),
         example_server
           (0 \<mapsto> \<lparr>d_data = [0x01, 0x23, 0x45, 0x67, 0x89, 0xAB, 0xCD, 0xEF], d_pos = 8\<rparr>))"
proof -
  have parsed: "parse_statement ''SELECT lo_lseek64($1, 0, 2) AS SIZE;'' =
      Some (Select [(SqlCall ''lo_lseek64'' [SqlParam 1, SqlNum 0, SqlNum 2], Some ''size'')])"
    by code_simp
  show ?thesis
    by (simp add: run_statement_def parsed apply_function_def Let_def example_server_def
        MAX_LARGE_OBJECT_SIZE_def)
qed

end
